theory Spec2Isabelle
  imports Complex_Main "HOL-Library.Sublist"
begin

section \<open>Python values used by the script\<close>

subsection \<open>Strings\<close>

text \<open>
  A Python \<^verbatim>\<open>str\<close> is a sequence of Unicode code points. Texts to be spoken are
  Cyrillic as often as Latin, so a text is a list of code points. Language codes, engine
  names, paths and exception messages are ASCII in the script and are kept as HOL strings.
\<close>

type_synonym ustr = "nat list"

type_synonym exn = string

definition ascii :: "string \<Rightarrow> ustr" where
  "ascii s = map of_char s"

text \<open>
  \<^verbatim>\<open>str.isspace\<close>: the code points \<^verbatim>\<open>str.strip()\<close> removes from both ends.
\<close>

definition is_space :: "nat \<Rightarrow> bool" where
  "is_space c =
     (c \<in> set [9, 10, 11, 12, 13, 28, 29, 30, 31, 32, 133, 160, 5760]
      \<or> (8192 \<le> c \<and> c \<le> 8202)
      \<or> c \<in> set [8232, 8233, 8239, 8287, 12288])"

definition strip :: "ustr \<Rightarrow> ustr" where
  "strip t = rev (dropWhile is_space (rev (dropWhile is_space t)))"

text \<open>
  \<^verbatim>\<open>str.lower()\<close> on the Basic Latin capitals and on the Cyrillic capitals
  U+0400..U+042F; other code points are returned as they are. The only code points that
  \<^verbatim>\<open>str.lower()\<close> sends into the range U+0430..U+044F tested below are U+0410..U+044F,
  which are covered.
\<close>

definition lower_cp :: "nat \<Rightarrow> nat" where
  "lower_cp c =
     (if 65 \<le> c \<and> c \<le> 90 then c + 32
      else if 1024 \<le> c \<and> c \<le> 1039 then c + 80
      else if 1040 \<le> c \<and> c \<le> 1071 then c + 32
      else c)"

definition py_lower :: "ustr \<Rightarrow> ustr" where
  "py_lower t = map lower_cp t"

text \<open>\<^verbatim>\<open>needle in hay\<close> on strings: the needle occurs as a substring.\<close>

fun contains :: "'a list \<Rightarrow> 'a list \<Rightarrow> bool" where
  "contains needle [] = (needle = [])"
| "contains needle (h # hay) = (prefix needle (h # hay) \<or> contains needle hay)"

subsection \<open>Decimal formatting of an index\<close>

definition digit_char :: "nat \<Rightarrow> char" where
  "digit_char d = ''0123456789'' ! d"

definition digit_val :: "char \<Rightarrow> nat" where
  "digit_val c = of_char c - 48"

text \<open>\<^verbatim>\<open>str(n)\<close> for a non-negative integer.\<close>

fun str_nat :: "nat \<Rightarrow> string" where
  "str_nat n =
     (if n < 10 then [digit_char n] else str_nat (n div 10) @ [digit_char (n mod 10)])"

declare str_nat.simps [simp del]

text \<open>The format specification \<^verbatim>\<open>{idx:04d}\<close>: at least four digits, padded with zeros.\<close>

definition fmt_04d :: "nat \<Rightarrow> string" where
  "fmt_04d n = replicate (4 - length (str_nat n)) CHR ''0'' @ str_nat n"

text \<open>Reading a decimal numeral back; used to state that formatting loses nothing.\<close>

definition nat_of_str :: "string \<Rightarrow> nat" where
  "nat_of_str s = foldl (\<lambda>a c. 10 * a + digit_val c) 0 s"

text \<open>\<^verbatim>\<open>f"audio_{idx:04d}.wav"\<close>, lines 335 and 397.\<close>

definition output_filename :: "nat \<Rightarrow> string" where
  "output_filename idx = ''audio_'' @ fmt_04d idx @ ''.wav''"

text \<open>\<^verbatim>\<open>os.path.join(a, b)\<close> with POSIX separators.\<close>

definition os_path_join :: "string \<Rightarrow> string \<Rightarrow> string" where
  "os_path_join a b =
     (if b \<noteq> [] \<and> hd b = CHR ''/'' then b
      else if a = [] \<or> last a = CHR ''/'' then a @ b
      else a @ ''/'' @ b)"

subsection \<open>Floats\<close>

text \<open>
  The speed is a Python float. Only comparisons are made on it, and those are exact, so a
  finite float is the rational it denotes; the infinities and NaN are kept apart, with the
  ordering Python gives them (every comparison with NaN is false).
\<close>

datatype pyfloat = FNum rat | PosInf | NegInf | NaN

fun py_lt :: "pyfloat \<Rightarrow> pyfloat \<Rightarrow> bool" where
  "py_lt NaN _ = False"
| "py_lt _ NaN = False"
| "py_lt (FNum a) (FNum b) = (a < b)"
| "py_lt (FNum _) PosInf = True"
| "py_lt (FNum _) NegInf = False"
| "py_lt PosInf _ = False"
| "py_lt NegInf NegInf = False"
| "py_lt NegInf _ = True"

fun py_le :: "pyfloat \<Rightarrow> pyfloat \<Rightarrow> bool" where
  "py_le NaN _ = False"
| "py_le _ NaN = False"
| "py_le (FNum a) (FNum b) = (a \<le> b)"
| "py_le (FNum _) PosInf = True"
| "py_le (FNum _) NegInf = False"
| "py_le PosInf PosInf = True"
| "py_le PosInf _ = False"
| "py_le NegInf _ = True"

text \<open>
  The builtins \<^verbatim>\<open>min(a, b)\<close> and \<^verbatim>\<open>max(a, b)\<close>: the first argument is kept unless the
  second is strictly smaller (greater).
\<close>

definition py_min :: "pyfloat \<Rightarrow> pyfloat \<Rightarrow> pyfloat" where
  "py_min a b = (if py_lt b a then b else a)"

definition py_max :: "pyfloat \<Rightarrow> pyfloat \<Rightarrow> pyfloat" where
  "py_max a b = (if py_lt a b then b else a)"

text \<open>\<^verbatim>\<open>speed = max(0.5, min(2.0, speed))\<close>, line 274.\<close>

definition clamp_speed :: "pyfloat \<Rightarrow> pyfloat" where
  "clamp_speed speed = py_max (FNum (1 / 2)) (py_min (FNum 2) speed)"

section \<open>Language detection and negotiation\<close>

text \<open>The literal of lines 128, 157 and 196: the code points U+0430..U+044F in order.\<close>

definition CYRILLIC_LETTERS :: "nat list" where
  "CYRILLIC_LETTERS =
     [1072, 1073, 1074, 1075, 1076, 1077, 1078, 1079, 1080, 1081, 1082, 1083, 1084, 1085,
      1086, 1087, 1088, 1089, 1090, 1091, 1092, 1093, 1094, 1095, 1096, 1097, 1098, 1099,
      1100, 1101, 1102, 1103]"

text \<open>
  The expression used three times in the script when no language is given:
  \<^verbatim>\<open>'uk' if any(c in '...' for c in text.lower()) else 'en'\<close>.
\<close>

definition detect_lang :: "ustr \<Rightarrow> string" where
  "detect_lang text =
     (if list_ex (\<lambda>c. c \<in> set CYRILLIC_LETTERS) (py_lower text) then ''uk'' else ''en'')"

text \<open>The language list of XTTS v2, lines 95 and 131.\<close>

definition XTTS_LANGUAGES :: "string list" where
  "XTTS_LANGUAGES =
     [''en'', ''es'', ''fr'', ''de'', ''it'', ''pt'', ''pl'', ''tr'', ''ru'', ''nl'',
      ''cs'', ''ar'', ''zh-cn'', ''hu'', ''ko'', ''ja'', ''hi'']"

text \<open>
  Lines 134 to 138 of \<^verbatim>\<open>simple_text_to_speech\<close>: the language handed to the Coqui model
  for a text.
\<close>

definition tts_language :: "ustr \<Rightarrow> string" where
  "tts_language text =
     (let detected_lang = detect_lang text; supported_langs = XTTS_LANGUAGES
      in if detected_lang = ''uk''
         then (if ''ru'' \<in> set supported_langs then ''ru'' else ''en'')
         else (if detected_lang \<in> set supported_langs then detected_lang else ''en''))"

section \<open>The world outside: file system, engines, console\<close>

text \<open>
  The file system maps a path to the size of the file there. The synthesis engines are
  external: each is a function of its arguments, the file system and the engine calls made
  so far, and it either returns or raises, leaving a file system behind in both cases.
\<close>

type_synonym fs = "string \<Rightarrow> nat option"

datatype engine_result = Returned fs | Raised exn fs

text \<open>
  What the script prints when something fails, is substituted or is finished. Progress
  lines that only echo arguments are not recorded.
\<close>

datatype message =
    UkrainianUnsupported string
  | NeedsSpeakerWav
  | MaybeEmpty
  | Saved string
  | NoEngine
  | GenerationError exn
  | TryFallback
  | UsedFallback string string
  | FallbackEmpty
  | FallbackError exn
  | CloningUnavailable
  | SpeakerNotFound string
  | LanguageSubstituted string string
  | CloneSaved string nat
  | NotCreated
  | CloneError exn
  | SpeakerHint
  | ColumnMissing string
  | CsvError exn
  | JsonError exn

datatype event =
    CoquiCall ustr "string option" string "pyfloat option" string
  | GttsCall ustr string string
  | Pyttsx3Call ustr string
  | Print message

fun is_call :: "event \<Rightarrow> bool" where
  "is_call (Print _) = False"
| "is_call _ = True"

record state =
  fs :: fs
  trace :: "event list"

definition calls :: "state \<Rightarrow> event list" where
  "calls st = filter is_call (trace st)"

definition emit :: "message \<Rightarrow> state \<Rightarrow> state" where
  "emit m st = st\<lparr>trace := trace st @ [Print m]\<rparr>"

text \<open>
  The module flags set by the guarded imports (lines 27 to 52) and the three engines:
  \<^verbatim>\<open>TTS.tts_to_file(text, speaker_wav, language, speed, file_path)\<close>,
  \<^verbatim>\<open>gTTS(text, lang, slow=False).save(path)\<close> and
  \<^verbatim>\<open>save_to_file(text, path); runAndWait()\<close> of pyttsx3.
\<close>

record env =
  TTS_AVAILABLE :: bool
  GTTS_AVAILABLE :: bool
  PYTTSX3_AVAILABLE :: bool
  model_loads :: bool
  coqui_tts_to_file ::
    "ustr \<Rightarrow> string option \<Rightarrow> string \<Rightarrow> pyfloat option \<Rightarrow> string \<Rightarrow> fs \<Rightarrow> event list \<Rightarrow> engine_result"
  gtts_save :: "ustr \<Rightarrow> string \<Rightarrow> string \<Rightarrow> fs \<Rightarrow> event list \<Rightarrow> engine_result"
  pyttsx3_save :: "ustr \<Rightarrow> string \<Rightarrow> fs \<Rightarrow> event list \<Rightarrow> engine_result"

text \<open>
  One engine call: the call is recorded, the file system is replaced by the one the engine
  leaves, and the exception, if any, is returned.
\<close>

definition invoke ::
  "event \<Rightarrow> (fs \<Rightarrow> event list \<Rightarrow> engine_result) \<Rightarrow> state \<Rightarrow> exn option \<times> state" where
  "invoke ev f st =
     (case f (fs st) (calls st) of
        Returned fs' \<Rightarrow> (None, \<lparr>fs = fs', trace = trace st @ [ev]\<rparr>)
      | Raised e fs' \<Rightarrow> (Some e, \<lparr>fs = fs', trace = trace st @ [ev]\<rparr>))"

section \<open>The class VoiceCloner\<close>

record cloner =
  primary_engine :: "string option"
  tts :: bool
  tts_engine :: bool
  supported_languages :: "string list"

text \<open>
  The constructor, lines 59 to 108: the object exists only if the Coqui library is
  importable and the model loads; otherwise \<^verbatim>\<open>RuntimeError\<close> is raised.
\<close>

definition VoiceCloner_init :: "env \<Rightarrow> exn + cloner" where
  "VoiceCloner_init env =
     (if TTS_AVAILABLE env then
        (if model_loads env then
           Inr \<lparr>primary_engine = Some ''TTS'', tts = True, tts_engine = False,
                supported_languages = XTTS_LANGUAGES\<rparr>
         else Inl ''RuntimeError: TTS model could not be loaded'')
      else Inl ''RuntimeError: Coqui TTS library required'')"

text \<open>\<^verbatim>\<open>_fallback_tts\<close>, lines 188 to 222.\<close>

definition fallback_tts :: "env \<Rightarrow> cloner \<Rightarrow> ustr \<Rightarrow> string \<Rightarrow> state \<Rightarrow> bool \<times> state" where
  "fallback_tts env c text output_path st0 =
     (let st = emit TryFallback st0 in
      if GTTS_AVAILABLE env \<and> primary_engine c \<noteq> Some ''GTTS'' then
        (let lang = detect_lang text in
         case invoke (GttsCall text lang output_path) (gtts_save env text lang output_path) st of
           (Some e, st') \<Rightarrow> (False, emit (FallbackError e) st')
         | (None, st') \<Rightarrow>
             (case fs st' output_path of
                Some file_size \<Rightarrow>
                  if file_size > 1000 then (True, emit (UsedFallback ''GTTS'' output_path) st')
                  else (False, emit FallbackEmpty st')
              | None \<Rightarrow> (False, st')))
      else if PYTTSX3_AVAILABLE env \<and> primary_engine c \<noteq> Some ''PYTTSX3'' then
        (case invoke (Pyttsx3Call text output_path) (pyttsx3_save env text output_path) st of
           (Some e, st') \<Rightarrow> (False, emit (FallbackError e) st')
         | (None, st') \<Rightarrow> (True, emit (UsedFallback ''PYTTSX3'' output_path) st'))
      else (False, st))"

text \<open>
  The handler of \<^verbatim>\<open>simple_text_to_speech\<close>, lines 183 to 186: print the error, then try the
  alternative engine.
\<close>

definition on_generation_error ::
  "env \<Rightarrow> cloner \<Rightarrow> ustr \<Rightarrow> string \<Rightarrow> exn \<Rightarrow> state \<Rightarrow> bool \<times> state" where
  "on_generation_error env c text output_path e st =
     fallback_tts env c text output_path (emit (GenerationError e) st)"

text \<open>\<^verbatim>\<open>simple_text_to_speech\<close>, lines 110 to 186.\<close>

definition simple_text_to_speech ::
  "env \<Rightarrow> cloner \<Rightarrow> ustr \<Rightarrow> string \<Rightarrow> state \<Rightarrow> bool \<times> state" where
  "simple_text_to_speech env c text output_path st =
     (if primary_engine c = Some ''TTS'' \<and> tts c then
        (let detected_lang = detect_lang text;
             lang = tts_language text;
             st1 = (if detected_lang = ''uk'' then emit (UkrainianUnsupported lang) st else st)
         in case invoke (CoquiCall text None lang None output_path)
                   (coqui_tts_to_file env text None lang None output_path) st1 of
              (Some e, st') \<Rightarrow>
                on_generation_error env c text output_path e
                  (if contains ''speaker_wav'' e then emit NeedsSpeakerWav st' else st')
            | (None, st') \<Rightarrow> (True, emit (Saved output_path) st'))
      else if primary_engine c = Some ''GTTS'' then
        (if \<not> GTTS_AVAILABLE env then
           on_generation_error env c text output_path
             (''No module named '' @ [CHR 0x27] @ ''gtts'' @ [CHR 0x27]) st
         else
           (let lang = detect_lang text in
            case invoke (GttsCall text lang output_path) (gtts_save env text lang output_path) st of
              (Some e, st') \<Rightarrow> on_generation_error env c text output_path e st'
            | (None, st') \<Rightarrow>
                (let st2 = (case fs st' output_path of
                              Some file_size \<Rightarrow> if file_size < 1000 then emit MaybeEmpty st' else st'
                            | None \<Rightarrow> st')
                 in (True, emit (Saved output_path) st2))))
      else if primary_engine c = Some ''PYTTSX3'' \<and> tts_engine c then
        (case invoke (Pyttsx3Call text output_path) (pyttsx3_save env text output_path) st of
           (Some e, st') \<Rightarrow> on_generation_error env c text output_path e st'
         | (None, st') \<Rightarrow> (True, emit (Saved output_path) st'))
      else (False, emit NoEngine st))"

text \<open>\<^verbatim>\<open>_pick_language\<close>, lines 224 to 233.\<close>

definition pick_language :: "cloner \<Rightarrow> string \<Rightarrow> string" where
  "pick_language c desired_lang =
     (if desired_lang \<in> set (supported_languages c) then desired_lang
      else if desired_lang = ''uk''
        then (if ''ru'' \<in> set (supported_languages c) then ''ru'' else ''en'')
      else ''en'')"

text \<open>\<^verbatim>\<open>clone_voice_from_sample\<close>, lines 235 to 298.\<close>

definition clone_voice_from_sample ::
  "env \<Rightarrow> cloner \<Rightarrow> ustr \<Rightarrow> string \<Rightarrow> string \<Rightarrow> string \<Rightarrow> pyfloat \<Rightarrow> state \<Rightarrow> bool \<times> state" where
  "clone_voice_from_sample env c text speaker_wav_path output_path language speed0 st =
     (if primary_engine c \<noteq> Some ''TTS'' \<or> \<not> tts c then (False, emit CloningUnavailable st)
      else if fs st speaker_wav_path = None then
        (False, emit (SpeakerNotFound speaker_wav_path) st)
      else
        (let selected_lang = pick_language c language;
             st1 = (if selected_lang \<noteq> language
                    then emit (LanguageSubstituted language selected_lang) st else st);
             speed = clamp_speed speed0
         in case invoke (CoquiCall text (Some speaker_wav_path) selected_lang (Some speed) output_path)
                   (coqui_tts_to_file env text (Some speaker_wav_path) selected_lang (Some speed)
                      output_path) st1 of
              (Some e, st') \<Rightarrow>
                (False, (if contains ''speaker_wav'' e then emit SpeakerHint else id)
                          (emit (CloneError e) st'))
            | (None, st') \<Rightarrow>
                (case fs st' output_path of
                   Some file_size \<Rightarrow> (True, emit (CloneSaved output_path file_size) st')
                 | None \<Rightarrow> (False, emit NotCreated st'))))"

section \<open>Batch processing\<close>

record results =
  success :: "string list"
  failed :: "ustr list"

text \<open>
  Lines 341 to 344 and 403 to 406, the same in both loops: clone when a reference path is
  given and the file is there, otherwise plain synthesis. The call passes no speed, so the
  default 1.0 applies.
\<close>

definition generate_audio ::
  "env \<Rightarrow> cloner \<Rightarrow> string option \<Rightarrow> ustr \<Rightarrow> string \<Rightarrow> string \<Rightarrow> state \<Rightarrow> bool \<times> state" where
  "generate_audio env c speaker_wav_path text output_path language st =
     (case speaker_wav_path of
        Some p \<Rightarrow>
          if p \<noteq> [] \<and> fs st p \<noteq> None
          then clone_voice_from_sample env c text p output_path language (FNum 1) st
          else simple_text_to_speech env c text output_path st
      | None \<Rightarrow> simple_text_to_speech env c text output_path st)"

text \<open>\<^verbatim>\<open>pd.isna\<close> applied to a \<^verbatim>\<open>str\<close>, as on line 332: a string is never a missing value.\<close>

definition pd_isna :: "ustr \<Rightarrow> bool" where
  "pd_isna text = False"

text \<open>
  One round of the loop of \<^verbatim>\<open>process_csv_file\<close>, lines 330 to 349. The row is the index
  label and \<^verbatim>\<open>str(row[text_column])\<close>.
\<close>

definition csv_row ::
  "env \<Rightarrow> cloner \<Rightarrow> string option \<Rightarrow> string \<Rightarrow> string \<Rightarrow> results \<times> state \<Rightarrow> nat \<times> ustr
     \<Rightarrow> results \<times> state" where
  "csv_row env c speaker_wav_path output_dir language acc row =
     (case acc of (res, st) \<Rightarrow> case row of (idx, text) \<Rightarrow>
        if pd_isna text \<or> strip text = [] then (res, st)
        else
          (let output_path = os_path_join output_dir (output_filename idx) in
           case generate_audio env c speaker_wav_path text output_path language st of
             (True, st') \<Rightarrow> (res\<lparr>success := success res @ [output_path]\<rparr>, st')
           | (False, st') \<Rightarrow>
               (res\<lparr>failed := failed res @
                       [ascii ''Row '' @ ascii (str_nat idx) @ ascii '': '' @ take 30 text]\<rparr>, st')))"

text \<open>
  The loop of \<^verbatim>\<open>process_csv_file\<close>, lines 328 to 349, over the texts
  \<^verbatim>\<open>str(row[text_column])\<close> of the rows in order. The index labels of a frame read by
  \<^verbatim>\<open>pd.read_csv(csv_path)\<close> are 0, 1, 2 and so on. Nothing in the loop raises.
\<close>

definition csv_loop ::
  "env \<Rightarrow> cloner \<Rightarrow> ustr list \<Rightarrow> string option \<Rightarrow> string \<Rightarrow> string \<Rightarrow> state \<Rightarrow> results \<times> state" where
  "csv_loop env c texts speaker_wav_path output_dir language st =
     foldl (csv_row env c speaker_wav_path output_dir language)
       (\<lparr>success = [], failed = []\<rparr>, st) (enumerate 0 texts)"





text \<open>
  One round of the loop of \<^verbatim>\<open>process_json_file\<close>, lines 389 to 411. The item is
  \<open>None\<close> when the record has no text field and otherwise \<^verbatim>\<open>str(item[text_field])\<close>.
\<close>

definition json_item ::
  "env \<Rightarrow> cloner \<Rightarrow> string option \<Rightarrow> string \<Rightarrow> string \<Rightarrow> results \<times> state \<Rightarrow> nat \<times> ustr option
     \<Rightarrow> results \<times> state" where
  "json_item env c speaker_wav_path output_dir language acc item =
     (case acc of (res, st) \<Rightarrow> case item of (idx, field) \<Rightarrow>
        (case field of
           None \<Rightarrow> (res, st)
         | Some text \<Rightarrow>
             if strip text = [] then (res, st)
             else
               (let output_path = os_path_join output_dir (output_filename idx) in
                case generate_audio env c speaker_wav_path text output_path language st of
                  (True, st') \<Rightarrow> (res\<lparr>success := success res @ [output_path]\<rparr>, st')
                | (False, st') \<Rightarrow>
                    (res\<lparr>failed := failed res @
                            [ascii ''Item '' @ ascii (str_nat idx) @ ascii '': '' @ take 30 text]\<rparr>,
                     st'))))"






section \<open>Concrete worlds\<close>

text \<open>
  Small worlds on which the functions can be run: the object as the constructor builds it,
  engines that write a file of a given size or crash, and two file systems.
\<close>

definition xtts_cloner :: cloner where
  "xtts_cloner =
     \<lparr>primary_engine = Some ''TTS'', tts = True, tts_engine = False,
      supported_languages = XTTS_LANGUAGES\<rparr>"

definition writes :: "nat \<Rightarrow> string \<Rightarrow> fs \<Rightarrow> event list \<Rightarrow> engine_result" where
  "writes n path files history = Returned (files(path \<mapsto> n))"

definition crashes :: "exn \<Rightarrow> fs \<Rightarrow> event list \<Rightarrow> engine_result" where
  "crashes e files history = Raised e files"

definition env_working :: env where
  "env_working =
     \<lparr>TTS_AVAILABLE = True, GTTS_AVAILABLE = True, PYTTSX3_AVAILABLE = False,
      model_loads = True,
      coqui_tts_to_file = (\<lambda>text spk lang speed path. writes 48000 path),
      gtts_save = (\<lambda>text lang path. writes 9000 path),
      pyttsx3_save = (\<lambda>text path. writes 9000 path)\<rparr>"

definition env_crashing :: env where
  "env_crashing =
     \<lparr>TTS_AVAILABLE = True, GTTS_AVAILABLE = True, PYTTSX3_AVAILABLE = True,
      model_loads = True,
      coqui_tts_to_file = (\<lambda>text spk lang speed path. crashes ''CUDA out of memory''),
      gtts_save = (\<lambda>text lang path. crashes ''Connection refused''),
      pyttsx3_save = (\<lambda>text path. crashes ''no driver'')\<rparr>"

definition env_coqui_only :: env where
  "env_coqui_only =
     \<lparr>TTS_AVAILABLE = True, GTTS_AVAILABLE = False, PYTTSX3_AVAILABLE = False,
      model_loads = True,
      coqui_tts_to_file = (\<lambda>text spk lang speed path. crashes ''CUDA out of memory''),
      gtts_save = (\<lambda>text lang path. crashes ''not installed''),
      pyttsx3_save = (\<lambda>text path. crashes ''not installed'')\<rparr>"

definition env_silent :: env where
  "env_silent =
     \<lparr>TTS_AVAILABLE = True, GTTS_AVAILABLE = True, PYTTSX3_AVAILABLE = False,
      model_loads = True,
      coqui_tts_to_file = (\<lambda>text spk lang speed path. writes 0 path),
      gtts_save = (\<lambda>text lang path. writes 0 path),
      pyttsx3_save = (\<lambda>text path. writes 0 path)\<rparr>"

definition no_files :: state where
  "no_files = \<lparr>fs = Map.empty, trace = []\<rparr>"

definition with_reference :: state where
  "with_reference = \<lparr>fs = [''ref.wav'' \<mapsto> 480000], trace = []\<rparr>"

text \<open>
  A JSON record has nothing to speak when it lacks the text field or its text is empty or
  all white space.
\<close>

definition no_text :: "ustr option \<Rightarrow> bool" where
  "no_text field = (case field of None \<Rightarrow> True | Some t \<Rightarrow> list_all is_space t)"






section \<open>Output file names\<close>

lemma lt10_cases:
  "d < (10::nat) \<Longrightarrow>
     d = 0 \<or> d = 1 \<or> d = 2 \<or> d = 3 \<or> d = 4 \<or> d = 5 \<or> d = 6 \<or> d = 7 \<or> d = 8 \<or> d = 9"
  by arith

lemma digit_val_char: "d < 10 \<Longrightarrow> digit_val (digit_char d) = d"
  using lt10_cases [of d] by (auto simp: digit_val_def digit_char_def)

lemma nat_of_str_snoc: "nat_of_str (s @ [c]) = 10 * nat_of_str s + digit_val c"
  by (simp add: nat_of_str_def)

lemma nat_of_str_nat: "nat_of_str (str_nat n) = n"
proof (induction n rule: str_nat.induct)
  case (1 n)
  show ?case
  proof (cases "n < 10")
    case True
    then show ?thesis by (simp add: str_nat.simps[of n] nat_of_str_def digit_val_char)
  next
    case False
    then have "nat_of_str (str_nat n) = 10 * (n div 10) + n mod 10"
      using 1 by (simp add: str_nat.simps[of n] nat_of_str_snoc digit_val_char)
    then show ?thesis by simp
  qed
qed

lemma nat_of_str_zeros: "nat_of_str (replicate k CHR ''0'' @ s) = nat_of_str s"
proof -
  have "foldl (\<lambda>a c. 10 * a + digit_val c) 0 (replicate k CHR ''0'') = 0"
    by (induction k) (simp_all add: digit_val_def)
  then show ?thesis by (simp add: nat_of_str_def)
qed

lemma nat_of_fmt_04d: "nat_of_str (fmt_04d n) = n"
  by (simp add: fmt_04d_def nat_of_str_zeros nat_of_str_nat)

lemma fmt_04d_inj:
  assumes "fmt_04d i = fmt_04d j"
  shows "i = j"
proof -
  have "i = nat_of_str (fmt_04d i)" by (simp only: nat_of_fmt_04d)
  also have "\<dots> = nat_of_str (fmt_04d j)" by (simp only: assms)
  also have "\<dots> = j" by (simp only: nat_of_fmt_04d)
  finally show ?thesis .
qed

lemma output_filename_inj: "output_filename i = output_filename j \<Longrightarrow> i = j"
  by (simp add: output_filename_def fmt_04d_inj)

lemma os_path_join_filename:
  "os_path_join d (output_filename i) =
     (if d = [] \<or> last d = CHR ''/'' then d else d @ ''/'') @ output_filename i"
  by (simp add: os_path_join_def output_filename_def)

lemma length_fmt_04d: "4 \<le> length (fmt_04d i)"
  by (simp add: fmt_04d_def)

text \<open>
  Claim C9. The output file of the item with index \<open>i\<close> is named from \<open>i\<close> alone: it is
  \<^verbatim>\<open>audio_\<close>, the index in decimal padded with zeros to at least four digits, and
  \<^verbatim>\<open>.wav\<close>, joined to the output directory. The name is a function of the index, so two
  runs over the same input name their files alike, and it is injective: two items of a run
  have the same file name, or the same path under one directory, only if they have the
  same index. The digits read back as the index.
\<close>

theorem output_names_injective:
  "(os_path_join d (output_filename i) = os_path_join d (output_filename j)) = (i = j)
   \<and> (output_filename i = output_filename j) = (i = j)
   \<and> output_filename i = ''audio_'' @ fmt_04d i @ ''.wav''
   \<and> nat_of_str (fmt_04d i) = i \<and> 4 \<le> length (fmt_04d i)"
proof -
  have "(os_path_join d (output_filename i) = os_path_join d (output_filename j)) = (i = j)"
    using output_filename_inj [of i j] by (auto simp: os_path_join_filename)
  moreover have "(output_filename i = output_filename j) = (i = j)"
    using output_filename_inj [of i j] by auto
  ultimately show ?thesis
    by (simp add: nat_of_fmt_04d length_fmt_04d output_filename_def)
qed

section \<open>Language negotiation\<close>

text \<open>
  Claim C7. A requested language that is in the supported languages of the engine is
  returned unchanged by \<^verbatim>\<open>_pick_language\<close>.
\<close>

theorem pick_language_supported:
  "desired_lang \<in> set (supported_languages c) \<Longrightarrow> pick_language c desired_lang = desired_lang"
  by (simp add: pick_language_def)

theorem pick_language_supported_witness:
  "''ru'' \<in> set (supported_languages xtts_cloner) \<and> pick_language xtts_cloner ''ru'' = ''ru''"
proof -
  have h: "''ru'' \<in> set (supported_languages xtts_cloner)"
    by (simp add: xtts_cloner_def XTTS_LANGUAGES_def)
  from pick_language_supported [OF h] h show ?thesis by simp
qed

section \<open>The constructed object\<close>

text \<open>
  Every object the constructor returns has the Coqui model as its primary engine, loaded,
  and the languages of XTTS v2: it is the object used in the examples below.
\<close>

lemma constructed_cloner:
  "VoiceCloner_init env = Inr c \<Longrightarrow>
     c = xtts_cloner \<and> primary_engine c = Some ''TTS'' \<and> tts c
     \<and> supported_languages c = XTTS_LANGUAGES"
  by (auto simp: VoiceCloner_init_def xtts_cloner_def split: if_splits)

lemma constructor_succeeds:
  "TTS_AVAILABLE env \<Longrightarrow> model_loads env \<Longrightarrow> VoiceCloner_init env = Inr xtts_cloner"
  by (simp add: VoiceCloner_init_def xtts_cloner_def)

section \<open>Effects of the helper operations\<close>

lemma calls_emit [simp]: "calls (emit m st) = calls st"
  by (simp add: calls_def emit_def)

lemma fs_emit [simp]: "fs (emit m st) = fs st"
  by (simp add: emit_def)

lemma trace_emit [simp]: "trace (emit m st) = trace st @ [Print m]"
  by (simp add: emit_def)

lemma clone_calls:
  assumes "primary_engine c = Some ''TTS''" "tts c" "fs st spk \<noteq> None"
  shows "calls (snd (clone_voice_from_sample env c t spk out lang speed st)) =
           calls st @ [CoquiCall t (Some spk) (pick_language c lang) (Some (clamp_speed speed)) out]"
  using assms
  by (auto simp: clone_voice_from_sample_def Let_def invoke_def calls_def emit_def
           split: engine_result.splits option.splits)

lemma clone_reports_substitution:
  assumes "primary_engine c = Some ''TTS''" "tts c" "fs st spk \<noteq> None"
    and "pick_language c lang \<noteq> lang"
  shows "Print (LanguageSubstituted lang (pick_language c lang)) \<in>
           set (trace (snd (clone_voice_from_sample env c t spk out lang speed st)))"
  using assms
  by (auto simp: clone_voice_from_sample_def Let_def invoke_def emit_def
           split: engine_result.splits option.splits)

section \<open>Speed\<close>

lemma clamp_below: "py_lt s (FNum (1 / 2)) \<Longrightarrow> clamp_speed s = FNum (1 / 2)"
  by (cases s) (auto simp: clamp_speed_def py_min_def py_max_def)

lemma clamp_above: "py_lt (FNum 2) s \<Longrightarrow> clamp_speed s = FNum 2"
  by (cases s) (auto simp: clamp_speed_def py_min_def py_max_def)

lemma clamp_inside: "py_le (FNum (1 / 2)) s \<Longrightarrow> py_le s (FNum 2) \<Longrightarrow> clamp_speed s = s"
  by (cases s) (auto simp: clamp_speed_def py_min_def py_max_def)

text \<open>
  Claim C5. A speed below 0.5 is replaced by 0.5, a speed above 2.0 by 2.0, and a speed
  from 0.5 to 2.0 is kept as it is; and the value handed to the engine by
  \<^verbatim>\<open>clone_voice_from_sample\<close>, whenever it reaches the engine (the Coqui model is the
  primary engine and the reference file exists), is the clamped speed.
\<close>

theorem speed_clamped_before_dispatch:
  "(py_lt speed (FNum (1 / 2)) \<longrightarrow> clamp_speed speed = FNum (1 / 2))
   \<and> (py_lt (FNum 2) speed \<longrightarrow> clamp_speed speed = FNum 2)
   \<and> (py_le (FNum (1 / 2)) speed \<and> py_le speed (FNum 2) \<longrightarrow> clamp_speed speed = speed)
   \<and> (primary_engine c = Some ''TTS'' \<and> tts c \<and> fs st spk \<noteq> None \<longrightarrow>
        calls (snd (clone_voice_from_sample env c t spk out lang speed st)) =
          calls st @
            [CoquiCall t (Some spk) (pick_language c lang) (Some (clamp_speed speed)) out])"
  by (simp add: clamp_below clamp_above clamp_inside clone_calls)

theorem speed_clamped_before_dispatch_witness:
  "py_lt (FNum (1 / 4)) (FNum (1 / 2)) \<and> clamp_speed (FNum (1 / 4)) = FNum (1 / 2)
   \<and> py_lt (FNum 2) (FNum 3) \<and> clamp_speed (FNum 3) = FNum 2
   \<and> py_le (FNum (1 / 2)) (FNum (13 / 10)) \<and> py_le (FNum (13 / 10)) (FNum 2)
   \<and> clamp_speed (FNum (13 / 10)) = FNum (13 / 10)
   \<and> primary_engine xtts_cloner = Some ''TTS'' \<and> tts xtts_cloner
   \<and> fs with_reference ''ref.wav'' \<noteq> None
   \<and> calls (snd (clone_voice_from_sample env_working xtts_cloner (ascii ''Hi'') ''ref.wav''
        ''out.wav'' ''en'' (FNum 3) with_reference)) =
        [CoquiCall (ascii ''Hi'') (Some ''ref.wav'') ''en'' (Some (FNum 2)) ''out.wav'']"
proof -
  have pre: "primary_engine xtts_cloner = Some ''TTS'' \<and> tts xtts_cloner
      \<and> fs with_reference ''ref.wav'' \<noteq> None"
    by (simp add: xtts_cloner_def with_reference_def)
  have lang: "pick_language xtts_cloner ''en'' = ''en''"
    by (simp add: pick_language_def xtts_cloner_def XTTS_LANGUAGES_def)
  have start: "calls with_reference = []"
    by (simp add: calls_def with_reference_def)
  note low = speed_clamped_before_dispatch [where speed = "FNum (1 / 4)"]
  note mid = speed_clamped_before_dispatch [where speed = "FNum (13 / 10)"]
  note high = speed_clamped_before_dispatch [where speed = "FNum 3" and c = xtts_cloner
      and st = with_reference and spk = "''ref.wav''" and env = env_working
      and t = "ascii ''Hi''" and out = "''out.wav''" and lang = "''en''"]
  from low mid high pre lang start show ?thesis by simp
qed

section \<open>Substitution of an unsupported language\<close>

text \<open>
  Claim C6. A requested language that the engine does not support is replaced by a fixed
  table: \<^verbatim>\<open>uk\<close> becomes \<^verbatim>\<open>ru\<close> when \<^verbatim>\<open>ru\<close> is supported, and every other case becomes
  the default \<^verbatim>\<open>en\<close>. Whenever \<^verbatim>\<open>clone_voice_from_sample\<close> negotiates the language and
  the result differs from the request, the substitution is printed for the caller. With
  the languages of XTTS v2, a request for \<^verbatim>\<open>uk\<close> yields \<^verbatim>\<open>ru\<close> and the report.
\<close>

theorem pick_language_substitution:
  "desired_lang \<notin> set (supported_languages c) \<Longrightarrow>
     pick_language c desired_lang =
       (if desired_lang = ''uk'' \<and> ''ru'' \<in> set (supported_languages c) then ''ru'' else ''en'')
     \<and> (primary_engine c = Some ''TTS'' \<and> tts c \<and> fs st spk \<noteq> None
          \<and> pick_language c desired_lang \<noteq> desired_lang \<longrightarrow>
        Print (LanguageSubstituted desired_lang (pick_language c desired_lang)) \<in>
          set (trace (snd (clone_voice_from_sample env c t spk out desired_lang speed st))))"
proof -
  assume unsupported: "desired_lang \<notin> set (supported_languages c)"
  then have table: "pick_language c desired_lang =
       (if desired_lang = ''uk'' \<and> ''ru'' \<in> set (supported_languages c) then ''ru'' else ''en'')"
    by (simp add: pick_language_def)
  have reported: "primary_engine c = Some ''TTS'' \<and> tts c \<and> fs st spk \<noteq> None
          \<and> pick_language c desired_lang \<noteq> desired_lang \<longrightarrow>
        Print (LanguageSubstituted desired_lang (pick_language c desired_lang)) \<in>
          set (trace (snd (clone_voice_from_sample env c t spk out desired_lang speed st)))"
    using clone_reports_substitution [of c st spk desired_lang env t out speed] by blast
  from table reported show ?thesis by (rule conjI)
qed

theorem pick_language_substitution_witness:
  "''uk'' \<notin> set (supported_languages xtts_cloner) \<and> ''ru'' \<in> set (supported_languages xtts_cloner)
   \<and> pick_language xtts_cloner ''uk'' = ''ru''
   \<and> primary_engine xtts_cloner = Some ''TTS'' \<and> tts xtts_cloner
   \<and> fs with_reference ''ref.wav'' \<noteq> None
   \<and> Print (LanguageSubstituted ''uk'' ''ru'') \<in>
       set (trace (snd (clone_voice_from_sample env_working xtts_cloner (ascii ''Hi'') ''ref.wav''
         ''out.wav'' ''uk'' (FNum 1) with_reference)))"
proof -
  have unsupported: "''uk'' \<notin> set (supported_languages xtts_cloner)"
    by (simp add: xtts_cloner_def XTTS_LANGUAGES_def)
  have russian: "''ru'' \<in> set (supported_languages xtts_cloner)"
    by (simp add: xtts_cloner_def XTTS_LANGUAGES_def)
  have pre: "primary_engine xtts_cloner = Some ''TTS'' \<and> tts xtts_cloner
      \<and> fs with_reference ''ref.wav'' \<noteq> None"
    by (simp add: xtts_cloner_def with_reference_def)
  note inst = pick_language_substitution [OF unsupported, where st = with_reference
      and spk = "''ref.wav''" and env = env_working and t = "ascii ''Hi''"
      and out = "''out.wav''" and speed = "FNum 1"]
  from inst unsupported russian pre show ?thesis by auto
qed

section \<open>Language detection\<close>

lemma in_cyrillic_letters: "c \<in> set CYRILLIC_LETTERS \<longleftrightarrow> 1072 \<le> c \<and> c \<le> 1103"
  unfolding CYRILLIC_LETTERS_def by (simp, arith)

lemma lower_cp_cyrillic: "1072 \<le> lower_cp c \<and> lower_cp c \<le> 1103 \<longleftrightarrow> 1040 \<le> c \<and> c \<le> 1103"
  by (auto simp: lower_cp_def)

text \<open>
  Claim C10. The detection used when no language is given is a total function: it answers
  \<^verbatim>\<open>uk\<close> exactly when the text in lower case has a code point of the fixed literal (the
  Russian small letters without U+0451), that is, when the text has a code point from
  U+0410 to U+044F, and \<^verbatim>\<open>en\<close> otherwise. So a text whose only Cyrillic letters are
  the Ukrainian ones U+0456, U+0457, U+0454, U+0491 (or U+0451), in either case, is
  classified \<^verbatim>\<open>en\<close>.
\<close>

theorem detect_lang_cyrillic:
  "(detect_lang t = ''uk'' \<longleftrightarrow> (\<exists>c \<in> set (py_lower t). c \<in> set CYRILLIC_LETTERS))
   \<and> (detect_lang t = ''en'' \<longleftrightarrow> \<not> (\<exists>c \<in> set (py_lower t). c \<in> set CYRILLIC_LETTERS))
   \<and> ((\<exists>c \<in> set (py_lower t). c \<in> set CYRILLIC_LETTERS) \<longleftrightarrow>
        (\<exists>c \<in> set t. 1040 \<le> c \<and> c \<le> 1103))
   \<and> detect_lang [1110, 1111, 1108, 1169, 1105] = ''en''
   \<and> detect_lang [1031, 1111, 32, 1108] = ''en''"
proof -
  have a: "(\<exists>c \<in> set (py_lower t). c \<in> set CYRILLIC_LETTERS) \<longleftrightarrow>
        (\<exists>c \<in> set t. 1040 \<le> c \<and> c \<le> 1103)"
    by (simp add: py_lower_def in_cyrillic_letters lower_cp_cyrillic)
  have b: "detect_lang [1110, 1111, 1108, 1169, 1105] = ''en''"
    by (simp add: detect_lang_def py_lower_def lower_cp_def in_cyrillic_letters)
  have c: "detect_lang [1031, 1111, 32, 1108] = ''en''"
    by (simp add: detect_lang_def py_lower_def lower_cp_def in_cyrillic_letters)
  show ?thesis
    using a b c by (simp add: detect_lang_def list_ex_iff)
qed

theorem detect_lang_cyrillic_witness:
  "(\<exists>c \<in> set (py_lower [1055, 1088, 1080]). c \<in> set CYRILLIC_LETTERS)
   \<and> detect_lang [1055, 1088, 1080] = ''uk''
   \<and> \<not> (\<exists>c \<in> set (py_lower (ascii ''Hello'')). c \<in> set CYRILLIC_LETTERS)
   \<and> detect_lang (ascii ''Hello'') = ''en''"
proof -
  have a: "\<exists>c \<in> set (py_lower [1055, 1088, 1080]). c \<in> set CYRILLIC_LETTERS"
    by (simp add: py_lower_def lower_cp_def in_cyrillic_letters)
  have b: "\<not> (\<exists>c \<in> set (py_lower (ascii ''Hello'')). c \<in> set CYRILLIC_LETTERS)"
    by (simp add: py_lower_def lower_cp_def in_cyrillic_letters ascii_def)
  from detect_lang_cyrillic [of "[1055, 1088, 1080]"] detect_lang_cyrillic [of "ascii ''Hello''"] a b
  show ?thesis by blast
qed

section \<open>The batch loops\<close>

lemma strip_empty_iff: "strip t = [] \<longleftrightarrow> list_all is_space t"
proof
  assume "strip t = []"
  then have rest: "\<forall>x \<in> set (dropWhile is_space t). is_space x"
    by (simp add: strip_def dropWhile_eq_Nil_conv)
  have "dropWhile is_space t = []"
  proof (rule ccontr)
    assume ne: "dropWhile is_space t \<noteq> []"
    then have "\<not> is_space (hd (dropWhile is_space t))"
      by (rule hd_dropWhile)
    moreover from ne have "hd (dropWhile is_space t) \<in> set (dropWhile is_space t)"
      by simp
    ultimately show False using rest by blast
  qed
  then show "list_all is_space t"
    by (simp add: dropWhile_eq_Nil_conv list_all_iff)
next
  assume "list_all is_space t"
  then have "dropWhile is_space t = []"
    by (simp add: dropWhile_eq_Nil_conv list_all_iff)
  then show "strip t = []"
    by (simp add: strip_def del: dropWhile_eq_Nil_conv)
qed

lemma csv_row_blank:
  "list_all is_space t \<Longrightarrow> csv_row env c spk dir lang (res, st) (idx, t) = (res, st)"
  by (simp add: csv_row_def strip_empty_iff)


lemma json_item_blank:
  "no_text field \<Longrightarrow> json_item env c spk dir lang (res, st) (idx, field) = (res, st)"
  by (cases field) (simp_all add: json_item_def no_text_def strip_empty_iff)
















lemma first_names:
  "output_filename 0 = ''audio_0000.wav''" "output_filename (Suc 0) = ''audio_0001.wav''"
  "output_filename 2 = ''audio_0002.wav''" "output_filename 3 = ''audio_0003.wav''"
  "output_filename 4 = ''audio_0004.wav''"
  by code_simp+





section \<open>Fallback after a failure of the primary engine\<close>

lemma fallback_calls:
  "calls (snd (fallback_tts env c t out s)) =
     calls s @
       (if GTTS_AVAILABLE env \<and> primary_engine c \<noteq> Some ''GTTS''
          then [GttsCall t (detect_lang t) out]
        else if PYTTSX3_AVAILABLE env \<and> primary_engine c \<noteq> Some ''PYTTSX3''
          then [Pyttsx3Call t out]
        else [])"
  by (auto simp: fallback_tts_def Let_def invoke_def calls_def emit_def
           split: engine_result.splits option.splits)

lemma fallback_result:
  "fst (fallback_tts env c t out s) =
     (if GTTS_AVAILABLE env \<and> primary_engine c \<noteq> Some ''GTTS'' then
        (case gtts_save env t (detect_lang t) out (fs s) (calls s) of
           Raised e2 fs2 \<Rightarrow> False
         | Returned fs2 \<Rightarrow> (case fs2 out of Some n \<Rightarrow> 1000 < n | None \<Rightarrow> False))
      else if PYTTSX3_AVAILABLE env \<and> primary_engine c \<noteq> Some ''PYTTSX3'' then
        (case pyttsx3_save env t out (fs s) (calls s) of
           Raised e2 fs2 \<Rightarrow> False
         | Returned fs2 \<Rightarrow> True)
      else False)"
  by (auto simp: fallback_tts_def Let_def invoke_def calls_def emit_def
           split: engine_result.splits option.splits)

lemma fallback_keeps_trace:
  "set (trace s) \<subseteq> set (trace (snd (fallback_tts env c t out s)))"
  by (auto simp: fallback_tts_def Let_def invoke_def emit_def
           split: engine_result.splits option.splits)

lemma simple_tts_raised:
  assumes "primary_engine c = Some ''TTS''" "tts c"
    and "coqui_tts_to_file env t None (tts_language t) None out (fs st) (calls st) = Raised e fs1"
  shows "\<exists>s. simple_text_to_speech env c t out st = fallback_tts env c t out s
           \<and> fs s = fs1
           \<and> calls s = calls st @ [CoquiCall t None (tts_language t) None out]
           \<and> Print (GenerationError e) \<in> set (trace s)"
proof -
  let ?st1 = "if detect_lang t = ''uk'' then emit (UkrainianUnsupported (tts_language t)) st else st"
  let ?st2 = "\<lparr>fs = fs1, trace = trace ?st1 @ [CoquiCall t None (tts_language t) None out]\<rparr>"
  let ?s = "emit (GenerationError e) (if contains ''speaker_wav'' e then emit NeedsSpeakerWav ?st2 else ?st2)"
  have call: "invoke (CoquiCall t None (tts_language t) None out)
      (coqui_tts_to_file env t None (tts_language t) None out) ?st1 = (Some e, ?st2)"
    using assms(3) by (simp add: invoke_def)
  have "simple_text_to_speech env c t out st = fallback_tts env c t out ?s"
    using assms(1,2) call
    by (simp add: simple_text_to_speech_def Let_def on_generation_error_def)
  moreover have "fs ?s = fs1" by simp
  moreover have "calls ?s = calls st @ [CoquiCall t None (tts_language t) None out]"
    by (simp add: calls_def emit_def)
  moreover have "Print (GenerationError e) \<in> set (trace ?s)" by simp
  ultimately show ?thesis by blast
qed

lemma simple_tts_returned:
  assumes "primary_engine c = Some ''TTS''" "tts c"
    and "coqui_tts_to_file env t None (tts_language t) None out (fs st) (calls st) = Returned fs1"
  shows "fst (simple_text_to_speech env c t out st) = True
       \<and> fs (snd (simple_text_to_speech env c t out st)) = fs1
       \<and> calls (snd (simple_text_to_speech env c t out st)) =
           calls st @ [CoquiCall t None (tts_language t) None out]"
proof -
  let ?st1 = "if detect_lang t = ''uk'' then emit (UkrainianUnsupported (tts_language t)) st else st"
  let ?st2 = "\<lparr>fs = fs1, trace = trace ?st1 @ [CoquiCall t None (tts_language t) None out]\<rparr>"
  have call: "invoke (CoquiCall t None (tts_language t) None out)
      (coqui_tts_to_file env t None (tts_language t) None out) ?st1 = (None, ?st2)"
    using assms(3) by (simp add: invoke_def)
  have "simple_text_to_speech env c t out st = (True, emit (Saved out) ?st2)"
    using assms(1,2) call
    by (simp add: simple_text_to_speech_def Let_def)
  then show ?thesis by (simp add: calls_def emit_def)
qed

lemma simple_tts_first_call:
  assumes "primary_engine c = Some ''TTS''" "tts c"
  shows "prefix (calls st @ [CoquiCall t None (tts_language t) None out])
           (calls (snd (simple_text_to_speech env c t out st)))"
proof (cases "coqui_tts_to_file env t None (tts_language t) None out (fs st) (calls st)")
  case (Returned fs1)
  from simple_tts_returned [OF assms Returned] show ?thesis by simp
next
  case (Raised e fs1)
  from simple_tts_raised [OF assms Raised] obtain s
    where s: "simple_text_to_speech env c t out st = fallback_tts env c t out s"
      "calls s = calls st @ [CoquiCall t None (tts_language t) None out]"
    by blast
  show ?thesis
    unfolding s(1) fallback_calls s(2) by (simp add: prefix_def)
qed

lemma clone_missing_reference:
  assumes "fs st spk = None"
  shows "fst (clone_voice_from_sample env c t spk out lang speed st) = False
       \<and> calls (snd (clone_voice_from_sample env c t spk out lang speed st)) = calls st
       \<and> fs (snd (clone_voice_from_sample env c t spk out lang speed st)) = fs st
       \<and> (primary_engine c = Some ''TTS'' \<and> tts c \<longrightarrow>
            trace (snd (clone_voice_from_sample env c t spk out lang speed st)) =
              trace st @ [Print (SpeakerNotFound spk)])"
  using assms by (simp add: clone_voice_from_sample_def)

lemma generate_audio_missing_reference:
  assumes "fs st spk = None"
  shows "generate_audio env c (Some spk) t out lang st = simple_text_to_speech env c t out st"
  using assms by (simp add: generate_audio_def)

lemma generate_audio_no_reference:
  "generate_audio env c None t out lang st = simple_text_to_speech env c t out st"
  by (simp add: generate_audio_def)

lemma clone_raised:
  assumes "primary_engine c = Some ''TTS''" "tts c" "fs st spk \<noteq> None"
    and "coqui_tts_to_file env t (Some spk) (pick_language c lang) (Some (clamp_speed speed)) out
           (fs st) (calls st) = Raised e fs1"
  shows "fst (clone_voice_from_sample env c t spk out lang speed st) = False
       \<and> Print (CloneError e) \<in> set (trace (snd (clone_voice_from_sample env c t spk out lang speed st)))"
  using assms
  by (auto simp: clone_voice_from_sample_def Let_def invoke_def)

lemma clone_returned:
  assumes "primary_engine c = Some ''TTS''" "tts c" "fs st spk \<noteq> None"
    and "coqui_tts_to_file env t (Some spk) (pick_language c lang) (Some (clamp_speed speed)) out
           (fs st) (calls st) = Returned fs1"
  shows "fst (clone_voice_from_sample env c t spk out lang speed st) = (fs1 out \<noteq> None)
       \<and> fs (snd (clone_voice_from_sample env c t spk out lang speed st)) = fs1"
  using assms
  by (auto simp: clone_voice_from_sample_def Let_def invoke_def split: option.splits)

lemmas world_defs = xtts_cloner_def writes_def crashes_def env_working_def env_crashing_def
  env_coqui_only_def env_silent_def no_files_def with_reference_def ascii_def

lemmas run_defs = simple_text_to_speech_def fallback_tts_def on_generation_error_def
  clone_voice_from_sample_def generate_audio_def invoke_def emit_def calls_def pick_language_def
  clamp_speed_def py_min_def py_max_def tts_language_def detect_lang_def py_lower_def lower_cp_def
  CYRILLIC_LETTERS_def XTTS_LANGUAGES_def Let_def

section \<open>A missing voice reference\<close>

text \<open>
  Against claim C1 as stated. With a working Coqui model and gTTS at hand, a cloning call
  whose reference file is missing prints that the file was not found and returns False;
  no engine is called. In a batch the same missing reference is not reported at all: the
  item is spoken by plain synthesis and recorded as a success like any other.
\<close>

theorem missing_reference_counterexample:
  "fst (clone_voice_from_sample env_working xtts_cloner (ascii ''Hello'') ''missing.wav''
          ''out.wav'' ''en'' (FNum 1) no_files) = False
   \<and> trace (snd (clone_voice_from_sample env_working xtts_cloner (ascii ''Hello'') ''missing.wav''
          ''out.wav'' ''en'' (FNum 1) no_files)) = [Print (SpeakerNotFound ''missing.wav'')]
   \<and> GTTS_AVAILABLE env_working
   \<and> fst (csv_loop env_working xtts_cloner [ascii ''Hello''] (Some ''missing.wav'')
          ''out'' ''en'' no_files) = \<lparr>success = [''out/audio_0000.wav''], failed = []\<rparr>
   \<and> trace (snd (csv_loop env_working xtts_cloner [ascii ''Hello''] (Some ''missing.wav'')
          ''out'' ''en'' no_files)) =
       [CoquiCall (ascii ''Hello'') None ''en'' None ''out/audio_0000.wav'',
        Print (Saved ''out/audio_0000.wav'')]"
  by (simp add: run_defs world_defs csv_loop_def csv_row_def pd_isna_def strip_def
      is_space_def os_path_join_def first_names)

text \<open>
  Claim C1, amended. For a cloning request whose reference file does not exist:
  \<^verbatim>\<open>clone_voice_from_sample\<close> returns False without calling any engine and without
  touching the file system, after printing that the file was not found (when the Coqui
  model is the primary engine); the batch loops route the item to
  \<^verbatim>\<open>simple_text_to_speech\<close> exactly as if no reference had been given, so its outcome is
  that of plain synthesis, with nothing that marks it as degraded.
\<close>

theorem missing_reference_behaviour:
  assumes "fs st spk = None"
  shows "fst (clone_voice_from_sample env c t spk out lang speed st) = False
       \<and> calls (snd (clone_voice_from_sample env c t spk out lang speed st)) = calls st
       \<and> fs (snd (clone_voice_from_sample env c t spk out lang speed st)) = fs st
       \<and> (primary_engine c = Some ''TTS'' \<and> tts c \<longrightarrow>
            trace (snd (clone_voice_from_sample env c t spk out lang speed st)) =
              trace st @ [Print (SpeakerNotFound spk)])
       \<and> generate_audio env c (Some spk) t out lang st = simple_text_to_speech env c t out st
       \<and> csv_row env c (Some spk) dir lang (res, st) (idx, t) =
           csv_row env c None dir lang (res, st) (idx, t)
       \<and> json_item env c (Some spk) dir lang (res, st) (idx, field) =
           json_item env c None dir lang (res, st) (idx, field)"
proof -
  have same: "\<And>p. generate_audio env c (Some spk) t p lang st = generate_audio env c None t p lang st"
    using assms by (simp add: generate_audio_def)
  have same': "\<And>p u. generate_audio env c (Some spk) u p lang st = generate_audio env c None u p lang st"
    using assms by (simp add: generate_audio_def)
  have csv: "csv_row env c (Some spk) dir lang (res, st) (idx, t) =
           csv_row env c None dir lang (res, st) (idx, t)"
    by (simp add: csv_row_def same)
  have json: "json_item env c (Some spk) dir lang (res, st) (idx, field) =
           json_item env c None dir lang (res, st) (idx, field)"
    by (cases field) (simp_all add: json_item_def same')
  from clone_missing_reference [OF assms] generate_audio_missing_reference [OF assms] csv json
  show ?thesis by blast
qed

theorem missing_reference_behaviour_witness:
  "fs no_files ''missing.wav'' = None
   \<and> primary_engine xtts_cloner = Some ''TTS'' \<and> tts xtts_cloner
   \<and> fst (clone_voice_from_sample env_working xtts_cloner (ascii ''Hello'') ''missing.wav''
          ''out.wav'' ''en'' (FNum 1) no_files) = False
   \<and> calls (snd (clone_voice_from_sample env_working xtts_cloner (ascii ''Hello'') ''missing.wav''
          ''out.wav'' ''en'' (FNum 1) no_files)) = []
   \<and> trace (snd (clone_voice_from_sample env_working xtts_cloner (ascii ''Hello'') ''missing.wav''
          ''out.wav'' ''en'' (FNum 1) no_files)) = [Print (SpeakerNotFound ''missing.wav'')]
   \<and> fst (generate_audio env_working xtts_cloner (Some ''missing.wav'') (ascii ''Hello'')
          ''out.wav'' ''en'' no_files) = True"
proof -
  have missing: "fs no_files ''missing.wav'' = None"
    by (simp add: no_files_def)
  have pre: "primary_engine xtts_cloner = Some ''TTS'' \<and> tts xtts_cloner"
    by (simp add: xtts_cloner_def)
  have start: "calls no_files = [] \<and> trace no_files = []"
    by (simp add: calls_def no_files_def)
  have plain: "fst (simple_text_to_speech env_working xtts_cloner (ascii ''Hello'') ''out.wav''
      no_files) = True"
    by (simp add: run_defs world_defs)
  note inst = missing_reference_behaviour [OF missing, where env = env_working
      and c = xtts_cloner and t = "ascii ''Hello''" and out = "''out.wav''" and lang = "''en''"
      and speed = "FNum 1"]
  from inst missing pre start plain show ?thesis by simp
qed

section \<open>A failure of the primary engine\<close>

text \<open>
  Against claim C3 as stated. When the Coqui model crashes and neither gTTS nor pyttsx3 is
  installed, \<^verbatim>\<open>simple_text_to_speech\<close> fails after the one call of the primary engine: no
  fallback engine is attempted. A crash inside \<^verbatim>\<open>clone_voice_from_sample\<close> is not
  followed by a fallback either, even with gTTS installed.
\<close>

theorem no_fallback_engine_counterexample:
  "fst (simple_text_to_speech env_coqui_only xtts_cloner (ascii ''Hello'') ''out.wav'' no_files)
     = False
   \<and> calls (snd (simple_text_to_speech env_coqui_only xtts_cloner (ascii ''Hello'') ''out.wav''
        no_files)) = [CoquiCall (ascii ''Hello'') None ''en'' None ''out.wav'']
   \<and> GTTS_AVAILABLE env_crashing
   \<and> fst (clone_voice_from_sample env_crashing xtts_cloner (ascii ''Hello'') ''ref.wav''
        ''out.wav'' ''en'' (FNum 1) with_reference) = False
   \<and> calls (snd (clone_voice_from_sample env_crashing xtts_cloner (ascii ''Hello'') ''ref.wav''
        ''out.wav'' ''en'' (FNum 1) with_reference)) =
       [CoquiCall (ascii ''Hello'') (Some ''ref.wav'') ''en'' (Some (FNum 1)) ''out.wav'']"
  by (simp add: run_defs world_defs)

text \<open>
  Claim C3, amended. When the Coqui primary engine raises in \<^verbatim>\<open>simple_text_to_speech\<close>,
  the error is printed and at most one fallback engine is called, once: gTTS if it is
  installed, else pyttsx3 if it is installed, else none. The call returns False when there
  is no fallback engine, when the fallback raises, or when the gTTS fallback leaves no file
  of more than 1000 bytes; the result is a bare truth value, and the message of the
  primary failure stays in the printed output. When the engine raises in
  \<^verbatim>\<open>clone_voice_from_sample\<close>, the call returns False after that one engine call.
\<close>

theorem primary_failure_fallback:
  assumes "primary_engine c = Some ''TTS''" and "tts c"
  shows "(coqui_tts_to_file env t None (tts_language t) None out (fs st) (calls st) = Raised e left
          \<longrightarrow>
          calls (snd (simple_text_to_speech env c t out st)) =
            calls st @ [CoquiCall t None (tts_language t) None out] @
              (if GTTS_AVAILABLE env then [GttsCall t (detect_lang t) out]
               else if PYTTSX3_AVAILABLE env then [Pyttsx3Call t out]
               else [])
          \<and> fst (simple_text_to_speech env c t out st) =
            (if GTTS_AVAILABLE env then
               (case gtts_save env t (detect_lang t) out left
                       (calls st @ [CoquiCall t None (tts_language t) None out]) of
                  Raised e2 fs2 \<Rightarrow> False
                | Returned fs2 \<Rightarrow> (case fs2 out of Some n \<Rightarrow> 1000 < n | None \<Rightarrow> False))
             else if PYTTSX3_AVAILABLE env then
               (case pyttsx3_save env t out left
                       (calls st @ [CoquiCall t None (tts_language t) None out]) of
                  Raised e2 fs2 \<Rightarrow> False
                | Returned fs2 \<Rightarrow> True)
             else False)
          \<and> Print (GenerationError e) \<in> set (trace (snd (simple_text_to_speech env c t out st))))
       \<and> (fs st spk \<noteq> None
            \<and> coqui_tts_to_file env t (Some spk) (pick_language c lang) (Some (clamp_speed speed))
                 out (fs st) (calls st) = Raised e' left' \<longrightarrow>
          fst (clone_voice_from_sample env c t spk out lang speed st) = False
          \<and> calls (snd (clone_voice_from_sample env c t spk out lang speed st)) =
              calls st @
                [CoquiCall t (Some spk) (pick_language c lang) (Some (clamp_speed speed)) out])"
proof (intro conjI impI)
  assume raised: "coqui_tts_to_file env t None (tts_language t) None out (fs st) (calls st)
      = Raised e left"
  from simple_tts_raised [OF assms raised] obtain s
    where s: "simple_text_to_speech env c t out st = fallback_tts env c t out s"
      "fs s = left" "calls s = calls st @ [CoquiCall t None (tts_language t) None out]"
      "Print (GenerationError e) \<in> set (trace s)"
    by blast
  show "calls (snd (simple_text_to_speech env c t out st)) =
           calls st @ [CoquiCall t None (tts_language t) None out] @
             (if GTTS_AVAILABLE env then [GttsCall t (detect_lang t) out]
              else if PYTTSX3_AVAILABLE env then [Pyttsx3Call t out]
              else [])"
    unfolding s(1) fallback_calls s(3) using assms(1) by simp
  show "fst (simple_text_to_speech env c t out st) =
           (if GTTS_AVAILABLE env then
              (case gtts_save env t (detect_lang t) out left
                      (calls st @ [CoquiCall t None (tts_language t) None out]) of
                 Raised e2 fs2 \<Rightarrow> False
               | Returned fs2 \<Rightarrow> (case fs2 out of Some n \<Rightarrow> 1000 < n | None \<Rightarrow> False))
            else if PYTTSX3_AVAILABLE env then
              (case pyttsx3_save env t out left
                      (calls st @ [CoquiCall t None (tts_language t) None out]) of
                 Raised e2 fs2 \<Rightarrow> False
               | Returned fs2 \<Rightarrow> True)
            else False)"
    unfolding s(1) fallback_result s(2) s(3) using assms(1) by simp
  show "Print (GenerationError e) \<in> set (trace (snd (simple_text_to_speech env c t out st)))"
    unfolding s(1) using s(4) fallback_keeps_trace [of s env c t out] by blast
next
  assume h: "fs st spk \<noteq> None
      \<and> coqui_tts_to_file env t (Some spk) (pick_language c lang) (Some (clamp_speed speed))
           out (fs st) (calls st) = Raised e' left'"
  then show "fst (clone_voice_from_sample env c t spk out lang speed st) = False"
    using clone_raised [OF assms, of st spk env t lang speed out e' left'] by blast
  from h show "calls (snd (clone_voice_from_sample env c t spk out lang speed st)) =
      calls st @ [CoquiCall t (Some spk) (pick_language c lang) (Some (clamp_speed speed)) out]"
    using clone_calls [OF assms, of st spk env t out lang speed] by blast
qed

theorem primary_failure_fallback_witness:
  "primary_engine xtts_cloner = Some ''TTS'' \<and> tts xtts_cloner
   \<and> coqui_tts_to_file env_crashing (ascii ''Hello'') None (tts_language (ascii ''Hello'')) None
        ''out.wav'' (fs with_reference) (calls with_reference)
       = Raised ''CUDA out of memory'' (fs with_reference)
   \<and> fs with_reference ''ref.wav'' \<noteq> None
   \<and> coqui_tts_to_file env_crashing (ascii ''Hello'') (Some ''ref.wav'')
        (pick_language xtts_cloner ''en'') (Some (clamp_speed (FNum 1)))
        ''out.wav'' (fs with_reference) (calls with_reference)
       = Raised ''CUDA out of memory'' (fs with_reference)
   \<and> calls (snd (simple_text_to_speech env_crashing xtts_cloner (ascii ''Hello'') ''out.wav''
        with_reference)) =
       [CoquiCall (ascii ''Hello'') None ''en'' None ''out.wav'',
        GttsCall (ascii ''Hello'') ''en'' ''out.wav'']
   \<and> fst (simple_text_to_speech env_crashing xtts_cloner (ascii ''Hello'') ''out.wav''
        with_reference) = False
   \<and> Print (GenerationError ''CUDA out of memory'') \<in>
       set (trace (snd (simple_text_to_speech env_crashing xtts_cloner (ascii ''Hello'') ''out.wav''
         with_reference)))
   \<and> fst (clone_voice_from_sample env_crashing xtts_cloner (ascii ''Hello'') ''ref.wav''
        ''out.wav'' ''en'' (FNum 1) with_reference) = False"
proof -
  have p1: "primary_engine xtts_cloner = Some ''TTS''" and p2: "tts xtts_cloner"
    by (simp_all add: xtts_cloner_def)
  have raised: "coqui_tts_to_file env_crashing (ascii ''Hello'') None
        (tts_language (ascii ''Hello'')) None ''out.wav'' (fs with_reference) (calls with_reference)
       = Raised ''CUDA out of memory'' (fs with_reference)"
    by (simp add: env_crashing_def crashes_def)
  have there: "fs with_reference ''ref.wav'' \<noteq> None"
    by (simp add: with_reference_def)
  have raised': "coqui_tts_to_file env_crashing (ascii ''Hello'') (Some ''ref.wav'')
        (pick_language xtts_cloner ''en'') (Some (clamp_speed (FNum 1)))
        ''out.wav'' (fs with_reference) (calls with_reference)
       = Raised ''CUDA out of memory'' (fs with_reference)"
    by (simp add: env_crashing_def crashes_def)
  have world: "GTTS_AVAILABLE env_crashing" "calls with_reference = []"
    "tts_language (ascii ''Hello'') = ''en''" "detect_lang (ascii ''Hello'') = ''en''"
    "gtts_save env_crashing (ascii ''Hello'') ''en'' ''out.wav'' (fs with_reference)
       [CoquiCall (ascii ''Hello'') None ''en'' None ''out.wav'']
     = Raised ''Connection refused'' (fs with_reference)"
    by (simp_all add: run_defs world_defs)
  note inst = primary_failure_fallback [OF p1 p2, where env = env_crashing
      and t = "ascii ''Hello''" and out = "''out.wav''" and st = with_reference
      and e = "''CUDA out of memory''" and left = "fs with_reference"
      and e' = "''CUDA out of memory''" and left' = "fs with_reference"
      and spk = "''ref.wav''" and lang = "''en''" and speed = "FNum 1"]
  from inst p1 p2 raised there raised' world show ?thesis by simp
qed

section \<open>The check of the output file\<close>

text \<open>
  Against claim C4 as stated. The cloning engine returns and leaves an output file of zero
  bytes: \<^verbatim>\<open>clone_voice_from_sample\<close> returns True.
\<close>

theorem empty_output_counterexample:
  "fst (clone_voice_from_sample env_silent xtts_cloner (ascii ''Hello'') ''ref.wav'' ''out.wav''
          ''en'' (FNum 1) with_reference) = True
   \<and> fs (snd (clone_voice_from_sample env_silent xtts_cloner (ascii ''Hello'') ''ref.wav''
          ''out.wav'' ''en'' (FNum 1) with_reference)) ''out.wav'' = Some 0"
  by (simp add: run_defs world_defs)

text \<open>
  Claim C4, amended. After an engine call that returns without raising,
  \<^verbatim>\<open>clone_voice_from_sample\<close> returns True exactly when the output file exists, whatever
  its size; \<^verbatim>\<open>simple_text_to_speech\<close> with the Coqui model as primary engine returns True
  without looking at the file; only the gTTS branch of \<^verbatim>\<open>_fallback_tts\<close> has a size
  threshold, and returns True exactly when the file exists and has more than 1000 bytes.
\<close>

theorem output_check_after_engine_call:
  "(primary_engine c = Some ''TTS'' \<and> tts c \<and> fs st spk \<noteq> None
      \<and> coqui_tts_to_file env t (Some spk) (pick_language c lang) (Some (clamp_speed speed)) out
           (fs st) (calls st) = Returned cloned_fs \<longrightarrow>
    fst (clone_voice_from_sample env c t spk out lang speed st) = (cloned_fs out \<noteq> None))
   \<and> (primary_engine c = Some ''TTS'' \<and> tts c
      \<and> coqui_tts_to_file env t None (tts_language t) None out (fs st) (calls st) = Returned spoken_fs
      \<longrightarrow> fst (simple_text_to_speech env c t out st) = True)
   \<and> (GTTS_AVAILABLE env \<and> primary_engine c \<noteq> Some ''GTTS''
      \<and> gtts_save env t (detect_lang t) out (fs st) (calls st) = Returned backup_fs \<longrightarrow>
    fst (fallback_tts env c t out st) = (case backup_fs out of Some n \<Rightarrow> 1000 < n | None \<Rightarrow> False))"
proof (intro conjI impI)
  assume "primary_engine c = Some ''TTS'' \<and> tts c \<and> fs st spk \<noteq> None
      \<and> coqui_tts_to_file env t (Some spk) (pick_language c lang) (Some (clamp_speed speed)) out
           (fs st) (calls st) = Returned cloned_fs"
  then show "fst (clone_voice_from_sample env c t spk out lang speed st) = (cloned_fs out \<noteq> None)"
    using clone_returned [of c st spk env t lang speed out cloned_fs] by blast
next
  assume "primary_engine c = Some ''TTS'' \<and> tts c
      \<and> coqui_tts_to_file env t None (tts_language t) None out (fs st) (calls st) = Returned spoken_fs"
  then show "fst (simple_text_to_speech env c t out st) = True"
    using simple_tts_returned [of c env t out st spoken_fs] by blast
next
  assume "GTTS_AVAILABLE env \<and> primary_engine c \<noteq> Some ''GTTS''
      \<and> gtts_save env t (detect_lang t) out (fs st) (calls st) = Returned backup_fs"
  then show "fst (fallback_tts env c t out st) =
      (case backup_fs out of Some n \<Rightarrow> 1000 < n | None \<Rightarrow> False)"
    by (simp add: fallback_result)
qed

theorem output_check_after_engine_call_witness:
  "primary_engine xtts_cloner = Some ''TTS'' \<and> tts xtts_cloner
   \<and> fs with_reference ''ref.wav'' \<noteq> None
   \<and> coqui_tts_to_file env_silent (ascii ''Hello'') (Some ''ref.wav'')
        (pick_language xtts_cloner ''en'') (Some (clamp_speed (FNum 1))) ''out.wav''
        (fs with_reference) (calls with_reference) = Returned ((fs with_reference)(''out.wav'' \<mapsto> 0))
   \<and> coqui_tts_to_file env_silent (ascii ''Hello'') None (tts_language (ascii ''Hello'')) None
        ''out.wav'' (fs with_reference) (calls with_reference)
       = Returned ((fs with_reference)(''out.wav'' \<mapsto> 0))
   \<and> GTTS_AVAILABLE env_silent \<and> primary_engine xtts_cloner \<noteq> Some ''GTTS''
   \<and> gtts_save env_silent (ascii ''Hello'') (detect_lang (ascii ''Hello'')) ''out.wav''
        (fs with_reference) (calls with_reference)
       = Returned ((fs with_reference)(''out.wav'' \<mapsto> 0))
   \<and> fst (clone_voice_from_sample env_silent xtts_cloner (ascii ''Hello'') ''ref.wav'' ''out.wav''
          ''en'' (FNum 1) with_reference) = True
   \<and> fst (simple_text_to_speech env_silent xtts_cloner (ascii ''Hello'') ''out.wav''
          with_reference) = True
   \<and> fst (fallback_tts env_silent xtts_cloner (ascii ''Hello'') ''out.wav'' with_reference) = False"
proof -
  have pre: "primary_engine xtts_cloner = Some ''TTS'' \<and> tts xtts_cloner
      \<and> fs with_reference ''ref.wav'' \<noteq> None
      \<and> GTTS_AVAILABLE env_silent \<and> primary_engine xtts_cloner \<noteq> Some ''GTTS''"
    by (simp add: xtts_cloner_def with_reference_def env_silent_def)
  have cloned: "coqui_tts_to_file env_silent (ascii ''Hello'') (Some ''ref.wav'')
        (pick_language xtts_cloner ''en'') (Some (clamp_speed (FNum 1))) ''out.wav''
        (fs with_reference) (calls with_reference) = Returned ((fs with_reference)(''out.wav'' \<mapsto> 0))"
    by (simp add: env_silent_def writes_def)
  have spoken: "coqui_tts_to_file env_silent (ascii ''Hello'') None (tts_language (ascii ''Hello''))
        None ''out.wav'' (fs with_reference) (calls with_reference)
       = Returned ((fs with_reference)(''out.wav'' \<mapsto> 0))"
    by (simp add: env_silent_def writes_def)
  have backup: "gtts_save env_silent (ascii ''Hello'') (detect_lang (ascii ''Hello'')) ''out.wav''
        (fs with_reference) (calls with_reference)
       = Returned ((fs with_reference)(''out.wav'' \<mapsto> 0))"
    by (simp add: env_silent_def writes_def)
  note inst = output_check_after_engine_call [where c = xtts_cloner and st = with_reference
      and spk = "''ref.wav''" and env = env_silent and t = "ascii ''Hello''" and lang = "''en''"
      and speed = "FNum 1" and out = "''out.wav''"
      and cloned_fs = "(fs with_reference)(''out.wav'' \<mapsto> 0)"
      and spoken_fs = "(fs with_reference)(''out.wav'' \<mapsto> 0)"
      and backup_fs = "(fs with_reference)(''out.wav'' \<mapsto> 0)"]
  from inst pre cloned spoken backup show ?thesis by simp
qed

section \<open>An empty text\<close>

text \<open>
  Against claim C8 as stated. Called with the empty text, both entry points call the
  Coqui engine with that text and return True when the engine writes a file.
\<close>

theorem empty_text_counterexample:
  "fst (clone_voice_from_sample env_working xtts_cloner [] ''ref.wav'' ''out.wav'' ''en'' (FNum 1)
          with_reference) = True
   \<and> calls (snd (clone_voice_from_sample env_working xtts_cloner [] ''ref.wav'' ''out.wav'' ''en''
          (FNum 1) with_reference)) =
       [CoquiCall [] (Some ''ref.wav'') ''en'' (Some (FNum 1)) ''out.wav'']
   \<and> fst (simple_text_to_speech env_working xtts_cloner [] ''out.wav'' no_files) = True
   \<and> calls (snd (simple_text_to_speech env_working xtts_cloner [] ''out.wav'' no_files)) =
       [CoquiCall [] None ''en'' None ''out.wav'']"
  by (simp add: run_defs world_defs)

lemma tts_language_empty: "tts_language [] = ''en''"
  by (simp add: tts_language_def detect_lang_def py_lower_def XTTS_LANGUAGES_def)

text \<open>
  Claim C8, amended. Neither \<^verbatim>\<open>clone_voice_from_sample\<close> nor
  \<^verbatim>\<open>simple_text_to_speech\<close> validates the text: with the Coqui model as primary engine
  (and, for cloning, the reference file in place) the engine is called with the empty text
  and the outcome is whatever follows from that call. An empty text is kept from the
  engines only by the batch loops, which skip the item and leave report and state as
  they were.
\<close>

theorem empty_text_reaches_engine:
  "(primary_engine c = Some ''TTS'' \<and> tts c \<and> fs st spk \<noteq> None \<longrightarrow>
      calls (snd (clone_voice_from_sample env c [] spk out lang speed st)) =
        calls st @ [CoquiCall [] (Some spk) (pick_language c lang) (Some (clamp_speed speed)) out])
   \<and> (primary_engine c = Some ''TTS'' \<and> tts c \<longrightarrow>
      prefix (calls st @ [CoquiCall [] None ''en'' None out])
        (calls (snd (simple_text_to_speech env c [] out st))))
   \<and> csv_row env c ref dir lang (res, st) (idx, []) = (res, st)
   \<and> json_item env c ref dir lang (res, st) (idx, Some []) = (res, st)"
proof (intro conjI impI)
  assume "primary_engine c = Some ''TTS'' \<and> tts c \<and> fs st spk \<noteq> None"
  then show "calls (snd (clone_voice_from_sample env c [] spk out lang speed st)) =
        calls st @ [CoquiCall [] (Some spk) (pick_language c lang) (Some (clamp_speed speed)) out]"
    using clone_calls [of c st spk env "[]" out lang speed] by blast
next
  assume "primary_engine c = Some ''TTS'' \<and> tts c"
  then show "prefix (calls st @ [CoquiCall [] None ''en'' None out])
        (calls (snd (simple_text_to_speech env c [] out st)))"
    using simple_tts_first_call [of c st "[]" out env] by (simp add: tts_language_empty)
next
  show "csv_row env c ref dir lang (res, st) (idx, []) = (res, st)"
    by (simp add: csv_row_blank)
  show "json_item env c ref dir lang (res, st) (idx, Some []) = (res, st)"
    by (simp add: json_item_blank no_text_def)
qed

theorem empty_text_reaches_engine_witness:
  "primary_engine xtts_cloner = Some ''TTS'' \<and> tts xtts_cloner
   \<and> fs with_reference ''ref.wav'' \<noteq> None
   \<and> calls (snd (clone_voice_from_sample env_working xtts_cloner [] ''ref.wav'' ''out.wav'' ''en''
          (FNum 1) with_reference)) =
       [CoquiCall [] (Some ''ref.wav'') ''en'' (Some (FNum 1)) ''out.wav'']
   \<and> prefix [CoquiCall [] None ''en'' None ''out.wav'']
        (calls (snd (simple_text_to_speech env_working xtts_cloner [] ''out.wav'' with_reference)))"
proof -
  have pre: "primary_engine xtts_cloner = Some ''TTS'' \<and> tts xtts_cloner
      \<and> fs with_reference ''ref.wav'' \<noteq> None"
    by (simp add: xtts_cloner_def with_reference_def)
  have start: "calls with_reference = []"
    by (simp add: calls_def with_reference_def)
  have params: "pick_language xtts_cloner ''en'' = ''en''" "clamp_speed (FNum 1) = FNum 1"
    by (simp_all add: run_defs world_defs)
  note inst = empty_text_reaches_engine [where c = xtts_cloner and st = with_reference
      and spk = "''ref.wav''" and env = env_working and lang = "''en''" and speed = "FNum 1"
      and out = "''out.wav''"]
  from inst pre start params show ?thesis by simp
qed

end
